theory Spec2Isabelle
  imports Main "HOL-Library.Sublist"
begin

section \<open>Python values\<close>

text \<open>
  The entries, keys and pages handled by \<^verbatim>\<open>download_bucket_files.py\<close> are dynamically
  typed. A value is \<^verbatim>\<open>None\<close>, an \<^verbatim>\<open>int\<close>, a \<^verbatim>\<open>str\<close>, a \<^verbatim>\<open>list\<close>, a \<^verbatim>\<open>dict\<close> with string keys
  (an association list, looked up with \<open>map_of\<close>) or an object carrying data attributes
  (the \<^verbatim>\<open>ObjectMeta\<close> results of aioaws and obstore). \<open>PyStrSub s attrs\<close> is an instance of a
  subclass of \<^verbatim>\<open>str\<close> with the text \<open>s\<close> and the data attributes \<open>attrs\<close>: it behaves as the
  string wherever a string is asked for and shows its attributes to \<^verbatim>\<open>hasattr\<close>. Booleans,
  floats and bytes do not occur as keys or sizes and are left out.
\<close>

datatype pyval =
    PyNone
  | PyInt int
  | PyStr string
  | PyStrSub string "(string \<times> pyval) list"
  | PyList "pyval list"
  | PyDict "(string \<times> pyval) list"
  | PyObj "(string \<times> pyval) list"

text \<open>
  The exceptions below are all subclasses of \<^verbatim>\<open>Exception\<close>, so \<^verbatim>\<open>except Exception\<close> catches
  each of them. \<open>BackendError\<close> stands for whatever a client library raises (network,
  permission, missing bucket), with its message.
\<close>

datatype pyexc =
    AttributeError
  | TypeError
  | KeyError
  | IndexError
  | OSError string
  | BackendError string

subsection \<open>Primitive operations\<close>

definition isinstance_dict :: "pyval \<Rightarrow> bool" where
  "isinstance_dict v = (case v of PyDict _ \<Rightarrow> True | _ \<Rightarrow> False)"

text \<open>\<^verbatim>\<open>name in entry\<close>, used only behind \<^verbatim>\<open>isinstance(entry, dict)\<close>.\<close>

definition dict_contains :: "pyval \<Rightarrow> string \<Rightarrow> bool" where
  "dict_contains v k = (case v of PyDict d \<Rightarrow> map_of d k \<noteq> None | _ \<Rightarrow> False)"

text \<open>\<^verbatim>\<open>entry.get(name, None)\<close> on a dict.\<close>

definition dict_get :: "pyval \<Rightarrow> string \<Rightarrow> pyval" where
  "dict_get v k =
     (case v of
        PyDict d \<Rightarrow> (case map_of d k of Some x \<Rightarrow> x | None \<Rightarrow> PyNone)
      | _ \<Rightarrow> PyNone)"

text \<open>
  \<^verbatim>\<open>hasattr(entry, name)\<close> for the names the program asks about (\<^verbatim>\<open>key\<close>, \<^verbatim>\<open>size\<close>,
  \<^verbatim>\<open>path\<close>): \<^verbatim>\<open>None\<close>, \<^verbatim>\<open>int\<close>, \<^verbatim>\<open>str\<close>, \<^verbatim>\<open>list\<close> and \<^verbatim>\<open>dict\<close> have no attribute of these names; an
  object and an instance of a subclass of \<^verbatim>\<open>str\<close> have the ones they carry.
\<close>

definition hasattr :: "pyval \<Rightarrow> string \<Rightarrow> bool" where
  "hasattr v a =
     (case v of
        PyObj attrs \<Rightarrow> map_of attrs a \<noteq> None
      | PyStrSub _ attrs \<Rightarrow> map_of attrs a \<noteq> None
      | _ \<Rightarrow> False)"

definition getattr :: "pyval \<Rightarrow> string \<Rightarrow> pyexc + pyval" where
  "getattr v a =
     (case v of
        PyObj attrs \<Rightarrow> (case map_of attrs a of Some x \<Rightarrow> Inr x | None \<Rightarrow> Inl AttributeError)
      | PyStrSub _ attrs \<Rightarrow>
          (case map_of attrs a of Some x \<Rightarrow> Inr x | None \<Rightarrow> Inl AttributeError)
      | _ \<Rightarrow> Inl AttributeError)"

text \<open>
  \<^verbatim>\<open>key.endswith("/")\<close>. Only a \<^verbatim>\<open>str\<close> has the method; a value whose data attribute is
  called \<^verbatim>\<open>endswith\<close> fails at the call instead of at the lookup.
\<close>

definition str_endswith_slash :: "string \<Rightarrow> bool" where
  "str_endswith_slash s = (s \<noteq> [] \<and> last s = CHR ''/'')"

definition endswith_slash :: "pyval \<Rightarrow> pyexc + bool" where
  "endswith_slash v =
     (case v of
        PyStr s \<Rightarrow> Inr (str_endswith_slash s)
      | PyStrSub s attrs \<Rightarrow>
          (case map_of attrs ''endswith'' of
             Some _ \<Rightarrow> Inl TypeError
           | None \<Rightarrow> Inr (str_endswith_slash s))
      | PyObj attrs \<Rightarrow>
          (case map_of attrs ''endswith'' of Some _ \<Rightarrow> Inl TypeError | None \<Rightarrow> Inl AttributeError)
      | _ \<Rightarrow> Inl AttributeError)"

text \<open>\<^verbatim>\<open>size > 0\<close>: defined between integers, a \<^verbatim>\<open>TypeError\<close> for every other operand.\<close>

definition gt_zero :: "pyval \<Rightarrow> pyexc + bool" where
  "gt_zero v = (case v of PyInt n \<Rightarrow> Inr (0 < n) | _ \<Rightarrow> Inl TypeError)"

definition is_None :: "pyval \<Rightarrow> bool" where
  "is_None v = (v = PyNone)"

text \<open>
  \<^verbatim>\<open>a and b\<close>, \<^verbatim>\<open>a or b\<close> and \<^verbatim>\<open>not a\<close> on booleans. The right operand is evaluated only when
  the left one does not decide, so an exception in it is lost when the left one decides.
\<close>

definition py_and :: "pyexc + bool \<Rightarrow> pyexc + bool \<Rightarrow> pyexc + bool" where
  "py_and a b = (case a of Inl e \<Rightarrow> Inl e | Inr x \<Rightarrow> (if x then b else Inr False))"

definition py_or :: "pyexc + bool \<Rightarrow> pyexc + bool \<Rightarrow> pyexc + bool" where
  "py_or a b = (case a of Inl e \<Rightarrow> Inl e | Inr x \<Rightarrow> (if x then Inr True else b))"

definition py_not :: "pyexc + bool \<Rightarrow> pyexc + bool" where
  "py_not a = (case a of Inl e \<Rightarrow> Inl e | Inr x \<Rightarrow> Inr (\<not> x))"

text \<open>\<^verbatim>\<open>obj.attr\<close> followed by an operation on the attribute.\<close>

definition on_attr :: "pyval \<Rightarrow> string \<Rightarrow> (pyval \<Rightarrow> pyexc + bool) \<Rightarrow> pyexc + bool" where
  "on_attr v a f = (case getattr v a of Inl e \<Rightarrow> Inl e | Inr x \<Rightarrow> f x)"

section \<open>The downloadable predicate\<close>

text \<open>
  \<^verbatim>\<open>_is_downloadable_entry(entry)\<close>, branch by branch in the order of the source. \<open>Inl\<close> is
  the exception that leaves the function.
\<close>

definition is_downloadable_entry :: "pyval \<Rightarrow> pyexc + bool" where
  "is_downloadable_entry entry =
     (if isinstance_dict entry \<and> dict_contains entry ''Key'' then
        (let key = dict_get entry ''Key'';
             size = dict_get entry ''Size''
         in py_and (py_not (endswith_slash key))
                   (py_or (Inr (is_None size)) (gt_zero size)))
      else if hasattr entry ''key'' \<and> hasattr entry ''size'' then
        py_and (py_not (on_attr entry ''key'' endswith_slash))
               (on_attr entry ''size'' gt_zero)
      else if isinstance_dict entry \<and> dict_contains entry ''path'' then
        (let key = dict_get entry ''path'';
             size = dict_get entry ''size''
         in py_and (Inr (\<not> is_None key))
              (py_and (py_not (endswith_slash key))
                      (py_or (Inr (is_None size)) (gt_zero size))))
      else if hasattr entry ''path'' \<and> hasattr entry ''size'' then
        py_and (py_not (on_attr entry ''path'' endswith_slash))
               (on_attr entry ''size'' gt_zero)
      else Inr False)"

text \<open>
  The four shapes named in the docstring of \<^verbatim>\<open>_is_downloadable_entry\<close>, built from a key
  and a size value.
\<close>

definition aioboto3_dict :: "pyval \<Rightarrow> pyval \<Rightarrow> pyval" where
  "aioboto3_dict key sz = PyDict [(''Key'', key), (''Size'', sz)]"

definition aioaws_meta :: "pyval \<Rightarrow> pyval \<Rightarrow> pyval" where
  "aioaws_meta key sz = PyObj [(''key'', key), (''size'', sz)]"

definition obstore_dict :: "pyval \<Rightarrow> pyval \<Rightarrow> pyval" where
  "obstore_dict key sz = PyDict [(''path'', key), (''size'', sz)]"

definition obstore_meta :: "pyval \<Rightarrow> pyval \<Rightarrow> pyval" where
  "obstore_meta key sz = PyObj [(''path'', key), (''size'', sz)]"

subsection \<open>More primitives of the orchestration code\<close>

text \<open>Truthiness, as tested by \<^verbatim>\<open>if not batch\<close> and \<^verbatim>\<open>x or y\<close>.\<close>

definition truthy :: "pyval \<Rightarrow> bool" where
  "truthy v =
     (case v of
        PyNone \<Rightarrow> False
      | PyInt n \<Rightarrow> n \<noteq> 0
      | PyStr s \<Rightarrow> s \<noteq> []
      | PyStrSub s _ \<Rightarrow> s \<noteq> []
      | PyList xs \<Rightarrow> xs \<noteq> []
      | PyDict d \<Rightarrow> d \<noteq> []
      | PyObj _ \<Rightarrow> True)"

text \<open>\<^verbatim>\<open>v.get(name, default)\<close> on a value not known to be a dict.\<close>

definition get_method :: "pyval \<Rightarrow> string \<Rightarrow> pyval \<Rightarrow> pyexc + pyval" where
  "get_method v k dflt =
     (case v of
        PyDict d \<Rightarrow> Inr (case map_of d k of Some x \<Rightarrow> x | None \<Rightarrow> dflt)
      | PyObj attrs \<Rightarrow>
          (case map_of attrs ''get'' of Some _ \<Rightarrow> Inl TypeError | None \<Rightarrow> Inl AttributeError)
      | PyStrSub _ attrs \<Rightarrow>
          (case map_of attrs ''get'' of Some _ \<Rightarrow> Inl TypeError | None \<Rightarrow> Inl AttributeError)
      | _ \<Rightarrow> Inl AttributeError)"

text \<open>\<^verbatim>\<open>v[name]\<close> with a string subscript: a lookup on a dict, a \<^verbatim>\<open>TypeError\<close> elsewhere.\<close>

definition subscript :: "pyval \<Rightarrow> string \<Rightarrow> pyexc + pyval" where
  "subscript v k =
     (case v of
        PyDict d \<Rightarrow> (case map_of d k of Some x \<Rightarrow> Inr x | None \<Rightarrow> Inl KeyError)
      | _ \<Rightarrow> Inl TypeError)"

text \<open>\<^verbatim>\<open>batch[0]\<close>.\<close>

definition subscript0 :: "pyval \<Rightarrow> pyexc + pyval" where
  "subscript0 v =
     (case v of
        PyList xs \<Rightarrow> (case xs of [] \<Rightarrow> Inl IndexError | x # _ \<Rightarrow> Inr x)
      | PyStr s \<Rightarrow> (case s of [] \<Rightarrow> Inl IndexError | c # _ \<Rightarrow> Inr (PyStr [c]))
      | PyStrSub s _ \<Rightarrow> (case s of [] \<Rightarrow> Inl IndexError | c # _ \<Rightarrow> Inr (PyStr [c]))
      | PyDict _ \<Rightarrow> Inl KeyError
      | _ \<Rightarrow> Inl TypeError)"

text \<open>The items a \<^verbatim>\<open>for\<close> loop draws from a value.\<close>

definition py_iter :: "pyval \<Rightarrow> pyexc + pyval list" where
  "py_iter v =
     (case v of
        PyList xs \<Rightarrow> Inr xs
      | PyStr s \<Rightarrow> Inr (map (\<lambda>c. PyStr [c]) s)
      | PyStrSub s _ \<Rightarrow> Inr (map (\<lambda>c. PyStr [c]) s)
      | PyDict d \<Rightarrow> Inr (map PyStr (remdups (map fst d)))
      | _ \<Rightarrow> Inl TypeError)"

text \<open>
  What an asynchronous iterator delivers: items, until it is exhausted (\<open>Done\<close>) or the
  request for the next item raises (\<open>Raise\<close>).
\<close>

datatype 'a feed = Done | Raise pyexc | Yield 'a "'a feed"

text \<open>
  Paths are kept as \<^verbatim>\<open>pathlib\<close> builds them: a resolved root, \<^verbatim>\<open>p / name\<close>, \<^verbatim>\<open>p.parent\<close>. The
  right operand of \<^verbatim>\<open>/\<close> has to be a string.
\<close>

datatype path = Resolved string | Div path string | Parent path

definition path_div :: "path \<Rightarrow> pyval \<Rightarrow> pyexc + path" where
  "path_div p v =
     (case v of
        PyStr s \<Rightarrow> Inr (Div p s)
      | PyStrSub s _ \<Rightarrow> Inr (Div p s)
      | _ \<Rightarrow> Inl TypeError)"

section \<open>Observable effects\<close>

text \<open>
  A printed line is the sequence of its pieces; a piece that is not literal text stands
  for the text Python renders (\<^verbatim>\<open>str\<close>, \<^verbatim>\<open>repr\<close>) and is kept unrendered. The separating
  blank of \<^verbatim>\<open>print(a, b)\<close> is written into the literal before it. Calls that reach a
  backend over the network are recorded when they are issued.
\<close>

datatype piece =
    Lit string
  | Num int
  | StrOf pyval
  | ReprOf pyval
  | ExcStr pyexc
  | ExcRepr pyexc
  | PathStr path

datatype netcall =
    StsGetCallerIdentity
  | Aioboto3Paginate string
  | AioawsList string
  | ObstoreListAsync string
  | Aioboto3GetObject string pyval
  | AioawsHttpGet string pyval
  | ObstoreGetAsync string pyval

datatype effect =
    Stdout "piece list"
  | Stderr "piece list"
  | Net netcall
  | Mkdir path
  | OpenWb path
  | FWrite path string

definition is_net :: "effect \<Rightarrow> bool" where
  "is_net e = (case e of Net _ \<Rightarrow> True | _ \<Rightarrow> False)"

text \<open>
  What ends a call early: an exception (caught by \<^verbatim>\<open>except Exception\<close> where there is one)
  or \<^verbatim>\<open>SystemExit\<close>, which no handler of the program catches and which sets the exit
  status.
\<close>

datatype exn = Exc pyexc | SystemExit int

type_synonym 'a run = "effect list \<times> (exn + 'a)"

definition then_do :: "'a run \<Rightarrow> ('a \<Rightarrow> 'b run) \<Rightarrow> 'b run" where
  "then_do m f =
     (case m of
        (t, Inl e) \<Rightarrow> (t, Inl e)
      | (t, Inr x) \<Rightarrow> (case f x of (t', r) \<Rightarrow> (t @ t', r)))"

definition say :: "piece list \<Rightarrow> unit run" where
  "say ps = ([Stdout ps], Inr ())"

definition lift :: "pyexc + 'a \<Rightarrow> 'a run" where
  "lift r = (case r of Inl e \<Rightarrow> ([], Inl (Exc e)) | Inr x \<Rightarrow> ([], Inr x))"

section \<open>Configuration and the outside world\<close>

text \<open>
  The module reads its configuration from the environment when it is loaded; the
  backends, the file system and the command line answer as the fields below say. Each
  listing call site has its own answer. \<open>render\<close> is Python's \<^verbatim>\<open>str()\<close> on values
  other than strings.
\<close>

record env =
  AWS_ACCESS_KEY_ID :: "string option"
  AWS_SECRET_ACCESS_KEY :: "string option"
  AWS_REGION :: string
  S3_TEST_BUCKET :: string
  parse_args :: "int + (int \<times> path)"
  get_caller_identity :: "pyexc + pyval"
  probe_aioaws :: "pyval feed"
  probe_obstore :: "pyval feed"
  paginate :: "pyval feed"
  aioaws_list :: "pyval feed"
  obstore_list_async :: "pyval feed"
  get_object :: "pyval \<Rightarrow> pyexc + string feed"
  http_get :: "pyval \<Rightarrow> pyexc + string feed"
  get_async :: "pyval \<Rightarrow> pyexc + string feed"
  mkdir :: "path \<Rightarrow> pyexc option"
  open_wb :: "path \<Rightarrow> pyexc option"
  fs_write :: "path \<Rightarrow> string \<Rightarrow> pyexc option"
  render :: "pyval \<Rightarrow> string"

definition py_str :: "env \<Rightarrow> pyval \<Rightarrow> string" where
  "py_str w v = (case v of PyStr s \<Rightarrow> s | PyStrSub s _ \<Rightarrow> s | _ \<Rightarrow> render w v)"

definition nl :: string where
  "nl = [CHR 0x0A]"

section \<open>Credential gate\<close>

text \<open>\<^verbatim>\<open>if not value\<close>: an unset variable and an empty one are both missing.\<close>

definition not_value :: "string option \<Rightarrow> bool" where
  "not_value v = (case v of None \<Rightarrow> True | Some s \<Rightarrow> s = [])"

definition missing_creds :: "env \<Rightarrow> string list" where
  "missing_creds w =
     map fst (filter (\<lambda>(name, v). not_value v)
       [(''AWS_ACCESS_KEY_ID'', AWS_ACCESS_KEY_ID w),
        (''AWS_SECRET_ACCESS_KEY'', AWS_SECRET_ACCESS_KEY w)])"

fun join_comma :: "string list \<Rightarrow> string" where
  "join_comma [] = []"
| "join_comma [x] = x"
| "join_comma (x # y # ys) = x @ '', '' @ join_comma (y # ys)"

definition require_creds :: "env \<Rightarrow> unit run" where
  "require_creds w =
     (let missing = missing_creds w in
      if missing \<noteq> [] then
        ([Stderr [Lit ''Missing required env vars: '', Lit (join_comma missing)]],
         Inl (SystemExit 1))
      else ([], Inr ()))"

section \<open>Authentication and listing probes\<close>

text \<open>\<^verbatim>\<open>check_aioboto3_sts\<close>: no handler surrounds the call to STS.\<close>

definition check_aioboto3_sts :: "env \<Rightarrow> unit run" where
  "check_aioboto3_sts w =
     then_do (say [Lit (nl @ ''=== aioboto3: STS GetCallerIdentity ==='')]) (\<lambda>_.
     then_do ([Net StsGetCallerIdentity], Inr ()) (\<lambda>_.
     then_do (lift (get_caller_identity w)) (\<lambda>resp.
     then_do (lift (subscript resp ''Account'')) (\<lambda>account.
     then_do (say [Lit ''  Account : '', StrOf account]) (\<lambda>_.
     then_do (lift (subscript resp ''Arn'')) (\<lambda>arn.
     then_do (say [Lit ''  ARN     : '', StrOf arn]) (\<lambda>_.
     then_do (lift (subscript resp ''UserId'')) (\<lambda>userid.
     then_do (say [Lit ''  UserId  : '', StrOf userid]) (\<lambda>_.
     say [Lit ''  -> aioboto3 credentials are valid''])))))))))"

text \<open>
  The \<^verbatim>\<open>try\<close> body of \<^verbatim>\<open>check_aioaws_s3\<close>: the loop stops after its first object. The
  result is the lines printed and the exception raised, if any.
\<close>

definition aioaws_probe_body :: "pyval feed \<Rightarrow> effect list \<times> pyexc option" where
  "aioaws_probe_body f =
     (case f of
        Done \<Rightarrow>
          ([Stdout [Lit ''  list() returned no objects, but request was accepted.''],
            Stdout [Lit ''  -> aioaws S3 request signed & accepted'']], None)
      | Raise e \<Rightarrow> ([], Some e)
      | Yield obj _ \<Rightarrow>
          (case getattr obj ''key'' of
             Inl e \<Rightarrow> ([], Some e)
           | Inr k \<Rightarrow>
               ([Stdout [Lit ''  First key from list(): '', StrOf k],
                 Stdout [Lit ''  -> aioaws S3 request signed & accepted'']], None)))"

definition check_aioaws_s3 :: "env \<Rightarrow> unit run" where
  "check_aioaws_s3 w =
     then_do (say [Lit (nl @ ''=== aioaws: S3 list sanity check on bucket ''),
                   ReprOf (PyStr (S3_TEST_BUCKET w)), Lit '' ==='']) (\<lambda>_.
     if S3_TEST_BUCKET w = [] then
       say [Lit ''  S3_TEST_BUCKET not set; skipping aioaws S3 check.'']
     else
       (case aioaws_probe_body (probe_aioaws w) of
          (t, None) \<Rightarrow> (Net (AioawsList (S3_TEST_BUCKET w)) # t, Inr ())
        | (t, Some e) \<Rightarrow>
            (Net (AioawsList (S3_TEST_BUCKET w)) # t
               @ [Stdout [Lit ''  aioaws S3 call failed: '', ExcRepr e]], Inr ())))"

text \<open>
  The name printed by the obstore code for an entry: \<^verbatim>\<open>entry.get("path") or entry\<close> for a
  dict, \<^verbatim>\<open>getattr(entry, "path", str(entry))\<close> otherwise.
\<close>

definition obstore_name :: "env \<Rightarrow> pyval \<Rightarrow> pyval" where
  "obstore_name w entry =
     (if isinstance_dict entry then
        (let p = dict_get entry ''path'' in if truthy p then p else entry)
      else
        (case getattr entry ''path'' of
           Inr p \<Rightarrow> p
         | Inl _ \<Rightarrow> PyStr (py_str w entry)))"

text \<open>
  The loop of \<^verbatim>\<open>check_obstore_s3\<close>: empty batches are counted and passed over, the first
  non-empty one is reported and ends the loop. The result carries \<^verbatim>\<open>batch_count\<close>.
\<close>

fun obstore_probe_loop :: "env \<Rightarrow> pyval feed \<Rightarrow> int \<Rightarrow> effect list \<times> int \<times> pyexc option" where
  "obstore_probe_loop w Done batch_count = ([], batch_count, None)"
| "obstore_probe_loop w (Raise e) batch_count = ([], batch_count, Some e)"
| "obstore_probe_loop w (Yield batch rest) batch_count =
     (if \<not> truthy batch then obstore_probe_loop w rest (batch_count + 1)
      else
        (case subscript0 batch of
           Inl e \<Rightarrow> ([], batch_count + 1, Some e)
         | Inr first \<Rightarrow>
             ([Stdout [Lit ''  First path from list_async(): '', StrOf (obstore_name w first)],
               Stdout [Lit ''  -> obstore S3 request signed & accepted'']],
              batch_count + 1, None)))"

text \<open>
  \<^verbatim>\<open>str(e)\<close>, as far as the test \<^verbatim>\<open>"NoSuchBucket" in msg\<close> needs it: the message of an exception
  that comes from a backend or the file system. The built-in exceptions raised by the
  primitives above carry a text of Python's own that names no bucket error; it is left
  empty.
\<close>

definition exc_msg :: "pyexc \<Rightarrow> string" where
  "exc_msg e = (case e of OSError m \<Rightarrow> m | BackendError m \<Rightarrow> m | _ \<Rightarrow> [])"

definition check_obstore_s3 :: "env \<Rightarrow> unit run" where
  "check_obstore_s3 w =
     then_do (say [Lit (nl @ ''=== obstore: S3Store list_async sanity check on bucket ''),
                   ReprOf (PyStr (S3_TEST_BUCKET w)), Lit '' ==='']) (\<lambda>_.
     if S3_TEST_BUCKET w = [] then
       say [Lit ''  S3_TEST_BUCKET not set; skipping obstore S3 check.'']
     else
       (case obstore_probe_loop w (probe_obstore w) 0 of
          (t, batch_count, None) \<Rightarrow>
            (Net (ObstoreListAsync (S3_TEST_BUCKET w)) # t
               @ (if batch_count = 0
                  then [Stdout [Lit ''  list_async() returned no batches, but request was accepted.'']]
                  else []), Inr ())
        | (t, batch_count, Some e) \<Rightarrow>
            (Net (ObstoreListAsync (S3_TEST_BUCKET w)) # t
               @ (if sublist ''NoSuchBucket'' (exc_msg e)
                  then [Stdout [Lit ''  -> credentials are OK, but bucket does not exist or is wrong: '',
                                StrOf (PyStr (S3_TEST_BUCKET w))]]
                  else [Stdout [Lit ''  obstore S3 call failed: '', ExcStr e]]), Inr ())))"

section \<open>Listings\<close>

text \<open>
  Each loop threads \<^verbatim>\<open>keys\<close> and \<^verbatim>\<open>count\<close>. A loop result is the lines printed, the state
  reached and the exception that ended it, if any. The cap is tested after an entry
  has been appended and counted.
\<close>

type_synonym lstate = "pyval list \<times> int"

text \<open>The inner \<^verbatim>\<open>for obj in contents\<close> of \<^verbatim>\<open>list_aioboto3_contents\<close>.\<close>

fun contents_loop :: "int \<Rightarrow> pyval list \<Rightarrow> lstate \<Rightarrow> effect list \<times> lstate \<times> pyexc option" where
  "contents_loop max_items [] st = ([], st, None)"
| "contents_loop max_items (obj # objs) (keys, count) =
     (case subscript obj ''Key'' of
        Inl e \<Rightarrow> ([], (keys, count), Some e)
      | Inr key \<Rightarrow>
          (if max_items \<le> count + 1
           then ([Stdout [Lit ''  - '', StrOf key]], (keys @ [key], count + 1), None)
           else
             (case contents_loop max_items objs (keys @ [key], count + 1) of
                (t, r) \<Rightarrow> (Stdout [Lit ''  - '', StrOf key] # t, r))))"

text \<open>The outer \<^verbatim>\<open>async for page in paginator.paginate(...)\<close>.\<close>

fun pages_loop :: "int \<Rightarrow> pyval feed \<Rightarrow> lstate \<Rightarrow> effect list \<times> lstate \<times> pyexc option" where
  "pages_loop max_items Done st = ([], st, None)"
| "pages_loop max_items (Raise e) st = ([], st, Some e)"
| "pages_loop max_items (Yield page rest) st =
     (case get_method page ''Contents'' (PyList []) of
        Inl e \<Rightarrow> ([], st, Some e)
      | Inr contents \<Rightarrow>
          (case py_iter contents of
             Inl e \<Rightarrow> ([], st, Some e)
           | Inr objs \<Rightarrow>
               (case contents_loop max_items objs st of
                  (t, st', Some e) \<Rightarrow> (t, st', Some e)
                | (t, (keys, count), None) \<Rightarrow>
                    (if max_items \<le> count then (t, (keys, count), None)
                     else
                       (case pages_loop max_items rest (keys, count) of
                          (t', r) \<Rightarrow> (t @ t', r))))))"

definition list_aioboto3_contents :: "env \<Rightarrow> int \<Rightarrow> pyval list run" where
  "list_aioboto3_contents w max_items =
     then_do (say [Lit (nl @ ''=== aioboto3: listing up to ''), Num max_items,
                   Lit '' objects (Downloading only files) from bucket '',
                   ReprOf (PyStr (S3_TEST_BUCKET w)), Lit '' ==='']) (\<lambda>_.
     if S3_TEST_BUCKET w = [] then
       then_do (say [Lit ''  S3_TEST_BUCKET not set; skipping.'']) (\<lambda>_. ([], Inr []))
     else
       (case pages_loop max_items (paginate w) ([], 0) of
          (t, st, Some e) \<Rightarrow> (Net (Aioboto3Paginate (S3_TEST_BUCKET w)) # t, Inl (Exc e))
        | (t, (keys, count), None) \<Rightarrow>
            (Net (Aioboto3Paginate (S3_TEST_BUCKET w)) # t
               @ [Stdout [Lit ''  -> aioboto3 listed '', Num count,
                          Lit '' objects (limit '', Num max_items, Lit '').'']],
             Inr keys)))"

text \<open>\<^verbatim>\<open>list_aioaws_contents\<close>: one loop over objects, inside \<^verbatim>\<open>try\<close>.\<close>

fun aioaws_loop :: "int \<Rightarrow> pyval feed \<Rightarrow> lstate \<Rightarrow> effect list \<times> lstate \<times> pyexc option" where
  "aioaws_loop max_items Done st = ([], st, None)"
| "aioaws_loop max_items (Raise e) st = ([], st, Some e)"
| "aioaws_loop max_items (Yield obj rest) (keys, count) =
     (case getattr obj ''key'' of
        Inl e \<Rightarrow> ([], (keys, count), Some e)
      | Inr key \<Rightarrow>
          (if max_items \<le> count + 1
           then ([Stdout [Lit ''  - '', StrOf key]], (keys @ [key], count + 1), None)
           else
             (case aioaws_loop max_items rest (keys @ [key], count + 1) of
                (t, r) \<Rightarrow> (Stdout [Lit ''  - '', StrOf key] # t, r))))"

definition list_aioaws_contents :: "env \<Rightarrow> int \<Rightarrow> pyval list run" where
  "list_aioaws_contents w max_items =
     then_do (say [Lit (nl @ ''=== aioaws: listing up to ''), Num max_items,
                   Lit '' objects (Downloading only files) from bucket '',
                   ReprOf (PyStr (S3_TEST_BUCKET w)), Lit '' ==='']) (\<lambda>_.
     if S3_TEST_BUCKET w = [] then
       then_do (say [Lit ''  S3_TEST_BUCKET not set; skipping.'']) (\<lambda>_. ([], Inr []))
     else
       (case aioaws_loop max_items (aioaws_list w) ([], 0) of
          (t, (keys, count), Some e) \<Rightarrow>
            (Net (AioawsList (S3_TEST_BUCKET w)) # t
               @ [Stdout [Lit ''  aioaws bucket listing failed: '', ExcStr e]],
             Inr keys)
        | (t, (keys, count), None) \<Rightarrow>
            (Net (AioawsList (S3_TEST_BUCKET w)) # t
               @ [Stdout [Lit ''  -> aioaws listed '', Num count,
                          Lit '' objects (limit '', Num max_items, Lit '').'']],
             Inr keys)))"

text \<open>\<^verbatim>\<open>list_obstore_contents\<close>: batches of entries, the outer and the inner loop inside \<^verbatim>\<open>try\<close>.\<close>

fun batch_loop :: "env \<Rightarrow> int \<Rightarrow> pyval list \<Rightarrow> lstate \<Rightarrow> effect list \<times> lstate" where
  "batch_loop w max_items [] st = ([], st)"
| "batch_loop w max_items (entry # entries) (keys, count) =
     (let key = PyStr (py_str w (obstore_name w entry)) in
      if max_items \<le> count + 1
      then ([Stdout [Lit ''  - '', StrOf key]], (keys @ [key], count + 1))
      else
        (case batch_loop w max_items entries (keys @ [key], count + 1) of
           (t, r) \<Rightarrow> (Stdout [Lit ''  - '', StrOf key] # t, r)))"

fun batches_loop :: "env \<Rightarrow> int \<Rightarrow> pyval feed \<Rightarrow> lstate \<Rightarrow> effect list \<times> lstate \<times> pyexc option" where
  "batches_loop w max_items Done st = ([], st, None)"
| "batches_loop w max_items (Raise e) st = ([], st, Some e)"
| "batches_loop w max_items (Yield batch rest) st =
     (case py_iter batch of
        Inl e \<Rightarrow> ([], st, Some e)
      | Inr entries \<Rightarrow>
          (case batch_loop w max_items entries st of
             (t, (keys, count)) \<Rightarrow>
               (if max_items \<le> count then (t, (keys, count), None)
                else
                  (case batches_loop w max_items rest (keys, count) of
                     (t', r) \<Rightarrow> (t @ t', r)))))"

definition list_obstore_contents :: "env \<Rightarrow> int \<Rightarrow> pyval list run" where
  "list_obstore_contents w max_items =
     then_do (say [Lit (nl @ ''=== obstore: listing up to ''), Num max_items,
                   Lit '' objects (Downloading only files) from bucket '',
                   ReprOf (PyStr (S3_TEST_BUCKET w)), Lit '' ==='']) (\<lambda>_.
     if S3_TEST_BUCKET w = [] then
       then_do (say [Lit ''  S3_TEST_BUCKET not set; skipping.'']) (\<lambda>_. ([], Inr []))
     else
       (case batches_loop w max_items (obstore_list_async w) ([], 0) of
          (t, (keys, count), Some e) \<Rightarrow>
            (Net (ObstoreListAsync (S3_TEST_BUCKET w)) # t
               @ [Stdout [Lit ''  obstore bucket listing failed: '', ExcStr e]],
             Inr keys)
        | (t, (keys, count), None) \<Rightarrow>
            (Net (ObstoreListAsync (S3_TEST_BUCKET w)) # t
               @ [Stdout [Lit ''  -> obstore listed '', Num count,
                          Lit '' objects (limit '', Num max_items, Lit '').'']],
             Inr keys)))"

section \<open>Downloads\<close>

text \<open>
  \<^verbatim>\<open>mkdir(parents=True, exist_ok=True)\<close> and the file operations leave their event when
  they succeed; a failing one raises what the file system answers.
\<close>

definition do_mkdir :: "env \<Rightarrow> path \<Rightarrow> unit run" where
  "do_mkdir w p = (case mkdir w p of Some e \<Rightarrow> ([], Inl (Exc e)) | None \<Rightarrow> ([Mkdir p], Inr ()))"

text \<open>
  The read loop of the aioboto3 download: \<^verbatim>\<open>body.read\<close> until it returns an empty chunk;
  \<open>Done\<close> is the empty chunk at the end of the body.
\<close>

fun read_loop :: "env \<Rightarrow> path \<Rightarrow> string feed \<Rightarrow> effect list \<times> pyexc option" where
  "read_loop w p Done = ([], None)"
| "read_loop w p (Raise e) = ([], Some e)"
| "read_loop w p (Yield chunk rest) =
     (if chunk = [] then ([], None)
      else
        (case fs_write w p chunk of
           Some e \<Rightarrow> ([], Some e)
         | None \<Rightarrow> (case read_loop w p rest of (t, r) \<Rightarrow> (FWrite p chunk # t, r))))"

text \<open>The \<^verbatim>\<open>async for chunk in ...: f.write(chunk)\<close> of the aioaws and obstore downloads.\<close>

fun write_all :: "env \<Rightarrow> path \<Rightarrow> string feed \<Rightarrow> effect list \<times> pyexc option" where
  "write_all w p Done = ([], None)"
| "write_all w p (Raise e) = ([], Some e)"
| "write_all w p (Yield chunk rest) =
     (case fs_write w p chunk of
        Some e \<Rightarrow> ([], Some e)
      | None \<Rightarrow> (case write_all w p rest of (t, r) \<Rightarrow> (FWrite p chunk # t, r)))"

text \<open>
  The statements inside \<^verbatim>\<open>try\<close>, up to but without the final \<^verbatim>\<open>print\<close>, for each
  interface: the request, the opening of the local file, the copy of the chunks. The
  result is the events and the exception raised inside \<^verbatim>\<open>try\<close>, if any.
\<close>

definition fetch_aioboto3 :: "env \<Rightarrow> pyval \<Rightarrow> path \<Rightarrow> effect list \<times> pyexc option" where
  "fetch_aioboto3 w key local_path =
     (case get_object w key of
        Inl e \<Rightarrow> ([Net (Aioboto3GetObject (S3_TEST_BUCKET w) key)], Some e)
      | Inr body \<Rightarrow>
          (case open_wb w local_path of
             Some e \<Rightarrow> ([Net (Aioboto3GetObject (S3_TEST_BUCKET w) key)], Some e)
           | None \<Rightarrow>
               (case read_loop w local_path body of
                  (t, r) \<Rightarrow>
                    (Net (Aioboto3GetObject (S3_TEST_BUCKET w) key) # OpenWb local_path # t, r))))"

definition fetch_aioaws :: "env \<Rightarrow> pyval \<Rightarrow> path \<Rightarrow> effect list \<times> pyexc option" where
  "fetch_aioaws w key local_path =
     (case http_get w key of
        Inl e \<Rightarrow> ([Net (AioawsHttpGet (S3_TEST_BUCKET w) key)], Some e)
      | Inr resp \<Rightarrow>
          (case open_wb w local_path of
             Some e \<Rightarrow> ([Net (AioawsHttpGet (S3_TEST_BUCKET w) key)], Some e)
           | None \<Rightarrow>
               (case write_all w local_path resp of
                  (t, r) \<Rightarrow>
                    (Net (AioawsHttpGet (S3_TEST_BUCKET w) key) # OpenWb local_path # t, r))))"

definition fetch_obstore :: "env \<Rightarrow> pyval \<Rightarrow> path \<Rightarrow> effect list \<times> pyexc option" where
  "fetch_obstore w key local_path =
     (case get_async w key of
        Inl e \<Rightarrow> ([Net (ObstoreGetAsync (S3_TEST_BUCKET w) key)], Some e)
      | Inr resp \<Rightarrow>
          (case open_wb w local_path of
             Some e \<Rightarrow> ([Net (ObstoreGetAsync (S3_TEST_BUCKET w) key)], Some e)
           | None \<Rightarrow>
               (case write_all w local_path resp of
                  (t, r) \<Rightarrow>
                    (Net (ObstoreGetAsync (S3_TEST_BUCKET w) key) # OpenWb local_path # t, r))))"

text \<open>
  The three download functions differ in the body of \<^verbatim>\<open>try\<close> and in the interface name
  only, so the \<^verbatim>\<open>try\<close>/\<^verbatim>\<open>except\<close> statement and the loop around it are written once, with the
  body \<open>fetch\<close> and the name \<open>via\<close> as parameters.

  \<open>try_download\<close> is the \<^verbatim>\<open>try\<close> statement for one key: the handler prints the failure
  and the statement ends normally.
\<close>

type_synonym fetcher = "env \<Rightarrow> pyval \<Rightarrow> path \<Rightarrow> effect list \<times> pyexc option"

definition try_download :: "fetcher \<Rightarrow> string \<Rightarrow> env \<Rightarrow> pyval \<Rightarrow> path \<Rightarrow> effect list" where
  "try_download fetch via w key local_path =
     (case fetch w key local_path of
        (t, None) \<Rightarrow>
          t @ [Stdout [Lit ''  downloaded: '', StrOf key, Lit '' -> '', PathStr local_path]]
      | (t, Some e) \<Rightarrow>
          t @ [Stdout [Lit ''  FAILED to download '', ReprOf key,
                       Lit ('' via '' @ via @ '': ''), ExcStr e]])"

text \<open>
  \<^verbatim>\<open>for key in keys\<close>: the downloadable test, the local path and its parent directory
  (all three outside \<^verbatim>\<open>try\<close>), then the \<^verbatim>\<open>try\<close> statement.
\<close>

fun download_loop :: "fetcher \<Rightarrow> string \<Rightarrow> env \<Rightarrow> path \<Rightarrow> pyval list \<Rightarrow> unit run" where
  "download_loop fetch via w base [] = ([], Inr ())"
| "download_loop fetch via w base (key # keys) =
     (case is_downloadable_entry key of
        Inl e \<Rightarrow> ([], Inl (Exc e))
      | Inr ok \<Rightarrow>
          (if \<not> ok then download_loop fetch via w base keys
           else
             (case path_div base key of
                Inl e \<Rightarrow> ([], Inl (Exc e))
              | Inr local_path \<Rightarrow>
                  (case mkdir w (Parent local_path) of
                     Some e \<Rightarrow> ([], Inl (Exc e))
                   | None \<Rightarrow>
                       (case download_loop fetch via w base keys of
                          (t, r) \<Rightarrow>
                            (Mkdir (Parent local_path)
                               # try_download fetch via w key local_path @ t, r))))))"

definition download_files :: "fetcher \<Rightarrow> string \<Rightarrow> env \<Rightarrow> pyval list \<Rightarrow> path \<Rightarrow> unit run" where
  "download_files fetch via w keys outdir =
     (let base = Div outdir via in
      then_do (do_mkdir w base) (\<lambda>_.
      then_do (say [Lit (nl @ ''=== '' @ via @ '': downloading ''), Num (int (length keys)),
                    Lit '' objects into '', PathStr base, Lit '' ==='']) (\<lambda>_.
      if keys = [] then say [Lit ''  (no keys to download)'']
      else download_loop fetch via w base keys)))"

definition download_aioboto3_files :: "env \<Rightarrow> pyval list \<Rightarrow> path \<Rightarrow> unit run" where
  "download_aioboto3_files = download_files fetch_aioboto3 ''aioboto3''"

definition download_aioaws_files :: "env \<Rightarrow> pyval list \<Rightarrow> path \<Rightarrow> unit run" where
  "download_aioaws_files = download_files fetch_aioaws ''aioaws''"

definition download_obstore_files :: "env \<Rightarrow> pyval list \<Rightarrow> path \<Rightarrow> unit run" where
  "download_obstore_files = download_files fetch_obstore ''obstore''"

section \<open>Main\<close>

text \<open>
  \<^verbatim>\<open>parse_args\<close> either leaves the process with a status of its own or gives \<^verbatim>\<open>--limit\<close>
  and the resolved \<^verbatim>\<open>--outdir\<close>.
\<close>

definition main :: "env \<Rightarrow> unit run" where
  "main w =
     then_do (require_creds w) (\<lambda>_.
     case parse_args w of
       Inl code \<Rightarrow> ([], Inl (SystemExit code))
     | Inr (max_items, outdir) \<Rightarrow>
         then_do (do_mkdir w outdir) (\<lambda>_.
         then_do (check_aioboto3_sts w) (\<lambda>_.
         then_do (check_aioaws_s3 w) (\<lambda>_.
         then_do (check_obstore_s3 w) (\<lambda>_.
         then_do (list_aioboto3_contents w max_items) (\<lambda>aioboto_keys.
         then_do (list_aioaws_contents w max_items) (\<lambda>aioaws_keys.
         then_do (list_obstore_contents w max_items) (\<lambda>obstore_keys.
         then_do (download_aioboto3_files w aioboto_keys outdir) (\<lambda>_.
         then_do (download_aioaws_files w aioaws_keys outdir) (\<lambda>_.
         download_obstore_files w obstore_keys outdir))))))))))"

text \<open>
  The status the process ends with: zero when \<^verbatim>\<open>main\<close> returns, the argument of
  \<^verbatim>\<open>sys.exit\<close>, and one for an exception nothing caught.
\<close>

definition exit_status :: "unit run \<Rightarrow> int" where
  "exit_status r = (case snd r of Inr _ \<Rightarrow> 0 | Inl (SystemExit c) \<Rightarrow> c | Inl (Exc _) \<Rightarrow> 1)"

section \<open>Well-formed listing answers\<close>

text \<open>
  The answer of a backend that delivers its items and then ends, and the page
  \<^verbatim>\<open>{"Contents": [{"Key": k}, ...]}\<close> that \<^verbatim>\<open>list_objects_v2\<close> gives for a list of keys.
  They describe inputs of the listing functions in the statements below.
\<close>

fun feed_of :: "'a list \<Rightarrow> 'a feed" where
  "feed_of [] = Done"
| "feed_of (x # xs) = Yield x (feed_of xs)"

definition page_of :: "pyval list \<Rightarrow> pyval" where
  "page_of ks = PyDict [(''Contents'', PyList (map (\<lambda>k. PyDict [(''Key'', k)]) ks))]"

section \<open>A sample world\<close>

text \<open>
  Both credentials set, a bucket name, a command line giving \<^verbatim>\<open>--limit 100 --outdir /out\<close>,
  backends that answer with nothing to list and empty bodies, and a file system on
  which every operation succeeds. The concrete runs below start from it.
\<close>

definition env0 :: env where
  "env0 =
     \<lparr> AWS_ACCESS_KEY_ID = Some ''AKIDEXAMPLE'',
       AWS_SECRET_ACCESS_KEY = Some ''secret'',
       AWS_REGION = ''eu-west-1'',
       S3_TEST_BUCKET = ''bucket'',
       parse_args = Inr (100, Resolved ''/out''),
       get_caller_identity =
         Inr (PyDict [(''Account'', PyStr ''123456789012''),
                      (''Arn'', PyStr ''arn:aws:iam::123456789012:user/u''),
                      (''UserId'', PyStr ''AIDAEXAMPLE'')]),
       probe_aioaws = Done,
       probe_obstore = Done,
       paginate = Done,
       aioaws_list = Done,
       obstore_list_async = Done,
       get_object = (\<lambda>_. Inr Done),
       http_get = (\<lambda>_. Inr Done),
       get_async = (\<lambda>_. Inr Done),
       mkdir = (\<lambda>_. None),
       open_wb = (\<lambda>_. None),
       fs_write = (\<lambda>_ _. None),
       render = (\<lambda>_. []) \<rparr>"



section \<open>Properties of the downloadable predicate\<close>

lemmas prim_defs =
  isinstance_dict_def dict_contains_def dict_get_def hasattr_def getattr_def
  endswith_slash_def gt_zero_def is_None_def py_and_def py_or_def py_not_def on_attr_def

lemmas shape_defs = aioboto3_dict_def aioaws_meta_def obstore_dict_def obstore_meta_def

text \<open>A plain string matches none of the four branches.\<close>

lemma downloadable_str: "is_downloadable_entry (PyStr s) = Inr False"
  by (simp add: is_downloadable_entry_def prim_defs)

text \<open>With a string key and an integer size the four shapes compute the same boolean.\<close>

lemma downloadable_known_size:
  "is_downloadable_entry (aioboto3_dict (PyStr k) (PyInt n)) = Inr (\<not> str_endswith_slash k \<and> 0 < n)"
  "is_downloadable_entry (aioaws_meta (PyStr k) (PyInt n)) = Inr (\<not> str_endswith_slash k \<and> 0 < n)"
  "is_downloadable_entry (obstore_dict (PyStr k) (PyInt n)) = Inr (\<not> str_endswith_slash k \<and> 0 < n)"
  "is_downloadable_entry (obstore_meta (PyStr k) (PyInt n)) = Inr (\<not> str_endswith_slash k \<and> 0 < n)"
  by (simp_all add: is_downloadable_entry_def prim_defs shape_defs Let_def)

text \<open>
  A key ending in \<^verbatim>\<open>/\<close> is rejected by every shape before the size is looked at, whatever
  the size value is.
\<close>

lemma downloadable_prefix_key:
  assumes "str_endswith_slash k"
  shows "is_downloadable_entry (aioboto3_dict (PyStr k) sz) = Inr False"
    and "is_downloadable_entry (aioaws_meta (PyStr k) sz) = Inr False"
    and "is_downloadable_entry (obstore_dict (PyStr k) sz) = Inr False"
    and "is_downloadable_entry (obstore_meta (PyStr k) sz) = Inr False"
  using assms by (simp_all add: is_downloadable_entry_def prim_defs shape_defs Let_def)

text \<open>The two mapping shapes accept a key not ending in \<^verbatim>\<open>/\<close> whose size is \<^verbatim>\<open>None\<close> or absent.\<close>

lemma downloadable_mapping_size_None:
  assumes "\<not> str_endswith_slash k"
  shows "is_downloadable_entry (aioboto3_dict (PyStr k) PyNone) = Inr True"
    and "is_downloadable_entry (obstore_dict (PyStr k) PyNone) = Inr True"
    and "is_downloadable_entry (PyDict [(''Key'', PyStr k)]) = Inr True"
    and "is_downloadable_entry (PyDict [(''path'', PyStr k)]) = Inr True"
  using assms by (simp_all add: is_downloadable_entry_def prim_defs shape_defs Let_def)

text \<open>The two object shapes raise on a size that is \<^verbatim>\<open>None\<close>, for every key not ending in \<^verbatim>\<open>/\<close>.\<close>

lemma downloadable_object_size_None:
  assumes "\<not> str_endswith_slash k"
  shows "is_downloadable_entry (aioaws_meta (PyStr k) PyNone) = Inl TypeError"
    and "is_downloadable_entry (obstore_meta (PyStr k) PyNone) = Inl TypeError"
  using assms by (simp_all add: is_downloadable_entry_def prim_defs shape_defs)

text \<open>A size of zero is rejected by all four shapes.\<close>

lemma downloadable_size_zero:
  "is_downloadable_entry (aioboto3_dict (PyStr k) (PyInt 0)) = Inr False"
  "is_downloadable_entry (aioaws_meta (PyStr k) (PyInt 0)) = Inr False"
  "is_downloadable_entry (obstore_dict (PyStr k) (PyInt 0)) = Inr False"
  "is_downloadable_entry (obstore_meta (PyStr k) (PyInt 0)) = Inr False"
  by (simp_all add: downloadable_known_size)

text \<open>
  C2. Shape invariance, evaluated at the key \<^verbatim>\<open>a.txt\<close> with size \<^verbatim>\<open>None\<close>: the two mapping
  shapes answer \<^verbatim>\<open>True\<close>, the two object shapes raise \<^verbatim>\<open>TypeError\<close> at \<^verbatim>\<open>entry.size > 0\<close>, so
  the four shapes of one logical entry do not yield the same boolean.
\<close>

theorem shapes_disagree_on_None_size:
  "is_downloadable_entry (aioboto3_dict (PyStr ''a.txt'') PyNone) = Inr True \<and>
   is_downloadable_entry (obstore_dict (PyStr ''a.txt'') PyNone) = Inr True \<and>
   is_downloadable_entry (aioaws_meta (PyStr ''a.txt'') PyNone) = Inl TypeError \<and>
   is_downloadable_entry (obstore_meta (PyStr ''a.txt'') PyNone) = Inl TypeError"
  by (simp add: is_downloadable_entry_def prim_defs shape_defs str_endswith_slash_def)

text \<open>
  C3. Totality, evaluated at an object entry with attributes \<^verbatim>\<open>key = "data/file.bin"\<close>
  and \<^verbatim>\<open>size = None\<close>: the predicate does not return a boolean, it raises \<^verbatim>\<open>TypeError\<close>.
\<close>

theorem object_entry_None_size_raises:
  "is_downloadable_entry (PyObj [(''key'', PyStr ''data/file.bin''), (''size'', PyNone)])
     = Inl TypeError"
  by (simp add: is_downloadable_entry_def prim_defs str_endswith_slash_def)

text \<open>
  C4. Size rules, evaluated at an obstore object entry with \<^verbatim>\<open>path = "logs/app.log"\<close> and
  \<^verbatim>\<open>size = None\<close>: the key does not end in \<^verbatim>\<open>/\<close> and the size is \<^verbatim>\<open>None\<close>, yet the predicate
  does not return \<^verbatim>\<open>True\<close>.
\<close>

theorem None_size_object_not_accepted:
  "\<not> str_endswith_slash ''logs/app.log'' \<and>
   is_downloadable_entry (obstore_meta (PyStr ''logs/app.log'') PyNone) \<noteq> Inr True"
  by (simp add: is_downloadable_entry_def prim_defs shape_defs str_endswith_slash_def)

text \<open>
  C9, as stated, fails: the mapping \<^verbatim>\<open>{"path": "", "size": 5}\<close> has a falsy path and is
  downloadable.
\<close>

theorem empty_path_is_downloadable:
  "\<not> truthy (PyStr '''') \<and>
   is_downloadable_entry (PyDict [(''path'', PyStr ''''), (''size'', PyInt 5)]) = Inr True"
  by (simp add: is_downloadable_entry_def prim_defs truthy_def str_endswith_slash_def)

text \<open>
  C9, amended: a mapping without \<^verbatim>\<open>"Key"\<close> whose \<^verbatim>\<open>"path"\<close> is \<^verbatim>\<open>None\<close> is not downloadable,
  whatever its other fields (its size among them) are.
\<close>

theorem None_path_not_downloadable:
  assumes "map_of d ''Key'' = None" and "map_of d ''path'' = Some PyNone"
  shows "is_downloadable_entry (PyDict d) = Inr False"
  using assms by (simp add: is_downloadable_entry_def prim_defs)

theorem None_path_not_downloadable_witness:
  "map_of [(''path'', PyNone), (''size'', PyInt 5)] ''Key'' = None \<and>
   map_of [(''path'', PyNone), (''size'', PyInt 5)] ''path'' = Some PyNone \<and>
   is_downloadable_entry (PyDict [(''path'', PyNone), (''size'', PyInt 5)]) = Inr False"
  using None_path_not_downloadable [of "[(''path'', PyNone), (''size'', PyInt 5)]"]
  by simp

section \<open>Properties of the listings\<close>

text \<open>
  While the count is below the cap, the inner loop of \<^verbatim>\<open>list_aioboto3_contents\<close> appends the
  keys of a page in order and stops in the page when the cap is reached.
\<close>

lemma contents_loop_keys:
  "count < m \<Longrightarrow>
   contents_loop m (map (\<lambda>k. PyDict [(''Key'', k)]) ks) (keys, count) =
     (map (\<lambda>k. Stdout [Lit ''  - '', StrOf k]) (take (nat (m - count)) ks),
      (keys @ take (nat (m - count)) ks, min m (count + int (length ks))), None)"
proof (induction ks arbitrary: keys count)
  case Nil
  then show ?case by simp
next
  case (Cons k ks)
  show ?case
  proof (cases "m \<le> count + 1")
    case True
    with Cons.prems have "m - count = 1" by simp
    with True show ?thesis by (simp add: subscript_def)
  next
    case False
    then have lt: "count + 1 < m" by simp
    have n: "nat (m - count) = Suc (nat (m - (count + 1)))" using lt by simp
    show ?thesis
      using False Cons.IH [OF lt, of "keys @ [k]"]
      by (simp add: subscript_def n min_def)
  qed
qed

lemma pages_loop_keys:
  "count < m \<Longrightarrow>
   pages_loop m (feed_of (map page_of kss)) (keys, count) =
     (map (\<lambda>k. Stdout [Lit ''  - '', StrOf k]) (take (nat (m - count)) (concat kss)),
      (keys @ take (nat (m - count)) (concat kss),
       min m (count + int (length (concat kss)))), None)"
proof (induction kss arbitrary: keys count)
  case Nil
  then show ?case by simp
next
  case (Cons ks kss)
  have page: "get_method (page_of ks) ''Contents'' (PyList [])
               = Inr (PyList (map (\<lambda>k. PyDict [(''Key'', k)]) ks))"
    by (simp add: get_method_def page_of_def)
  note cl = contents_loop_keys [OF Cons.prems, of ks keys]
  show ?case
  proof (cases "m \<le> count + int (length ks)")
    case True
    then have "nat (m - count) \<le> length ks" by simp
    then show ?thesis using True
      by (simp add: page py_iter_def cl min_def)
  next
    case False
    then have lt: "count + int (length ks) < m" by simp
    have tk: "take (nat (m - count)) ks = ks" using lt by simp
    have n: "nat (m - count) - length ks = nat (m - (count + int (length ks)))"
      using lt by simp
    show ?thesis
      using False Cons.IH [OF lt, of "keys @ ks"]
      by (simp add: page py_iter_def cl min_def tk n)
  qed
qed

text \<open>
  With a cap of at least one, the aioboto3 listing returns the first \<open>max_items\<close> keys of
  the pages in arrival order, unfiltered, or all of them when there are fewer.
\<close>

lemma list_aioboto3_positive_cap:
  assumes "S3_TEST_BUCKET w \<noteq> []" and "1 \<le> max_items"
    and "paginate w = feed_of (map page_of kss)"
  shows "snd (list_aioboto3_contents w max_items) = Inr (take (nat max_items) (concat kss))"
proof -
  have "0 < max_items" using assms(2) by simp
  from pages_loop_keys [OF this, of kss "[]"] show ?thesis
    using assms(1,3) by (simp add: list_aioboto3_contents_def then_do_def say_def)
qed

text \<open>
  With a cap of zero or less, the first entry delivered is appended and counted before the
  cap is tested, so the listing returns one key.
\<close>

lemma list_aioboto3_nonpositive_cap:
  assumes "S3_TEST_BUCKET w \<noteq> []" and "max_items \<le> 0"
    and "paginate w = feed_of (map page_of ((k # ks) # kss))"
  shows "snd (list_aioboto3_contents w max_items) = Inr [k]"
  using assms
  by (simp add: list_aioboto3_contents_def then_do_def say_def get_method_def page_of_def
      py_iter_def subscript_def)

text \<open>
  C5. The listing cap, evaluated at \<^verbatim>\<open>max_items = 0\<close> with one page of two entries \<^verbatim>\<open>a\<close>, \<^verbatim>\<open>b\<close>
  and a bucket name \<^verbatim>\<open>b\<close>: the listing prints and returns the key \<^verbatim>\<open>a\<close> and reports one object
  against a limit of zero, where the first \<open>min 0 2\<close> keys are no keys.
\<close>

theorem zero_cap_lists_one_key:
  "list_aioboto3_contents
     (w\<lparr>S3_TEST_BUCKET := ''b'',
        paginate := Yield (PyDict [(''Contents'',
                      PyList [PyDict [(''Key'', PyStr ''a'')], PyDict [(''Key'', PyStr ''b'')]])])
                      Done\<rparr>) 0
   = ([Stdout [Lit (nl @ ''=== aioboto3: listing up to ''), Num 0,
               Lit '' objects (Downloading only files) from bucket '',
               ReprOf (PyStr ''b''), Lit '' ===''],
       Net (Aioboto3Paginate ''b''),
       Stdout [Lit ''  - '', StrOf (PyStr ''a'')],
       Stdout [Lit ''  -> aioboto3 listed '', Num 1, Lit '' objects (limit '', Num 0, Lit '').'']],
      Inr [PyStr ''a''])
   \<and> take (nat (min 0 2)) [PyStr ''a'', PyStr ''b''] = []"
  by (simp add: list_aioboto3_contents_def then_do_def say_def get_method_def py_iter_def
      subscript_def)

text \<open>
  C10. When the bucket name is empty, each of the three listing functions prints its
  heading and the skip notice and returns the empty list, and each of the two listing
  probes prints its heading and its skip notice and returns; none of them issues a call to
  a backend.
\<close>

theorem empty_bucket_skips:
  assumes "S3_TEST_BUCKET w = []"
  shows
   "list_aioboto3_contents w max_items =
      ([Stdout [Lit (nl @ ''=== aioboto3: listing up to ''), Num max_items,
                Lit '' objects (Downloading only files) from bucket '',
                ReprOf (PyStr []), Lit '' ===''],
        Stdout [Lit ''  S3_TEST_BUCKET not set; skipping.'']], Inr [])
    \<and> list_aioaws_contents w max_items =
      ([Stdout [Lit (nl @ ''=== aioaws: listing up to ''), Num max_items,
                Lit '' objects (Downloading only files) from bucket '',
                ReprOf (PyStr []), Lit '' ===''],
        Stdout [Lit ''  S3_TEST_BUCKET not set; skipping.'']], Inr [])
    \<and> list_obstore_contents w max_items =
      ([Stdout [Lit (nl @ ''=== obstore: listing up to ''), Num max_items,
                Lit '' objects (Downloading only files) from bucket '',
                ReprOf (PyStr []), Lit '' ===''],
        Stdout [Lit ''  S3_TEST_BUCKET not set; skipping.'']], Inr [])
    \<and> check_aioaws_s3 w =
      ([Stdout [Lit (nl @ ''=== aioaws: S3 list sanity check on bucket ''),
                ReprOf (PyStr []), Lit '' ===''],
        Stdout [Lit ''  S3_TEST_BUCKET not set; skipping aioaws S3 check.'']], Inr ())
    \<and> check_obstore_s3 w =
      ([Stdout [Lit (nl @ ''=== obstore: S3Store list_async sanity check on bucket ''),
                ReprOf (PyStr []), Lit '' ===''],
        Stdout [Lit ''  S3_TEST_BUCKET not set; skipping obstore S3 check.'']], Inr ())"
proof -
  have a: "list_aioboto3_contents w max_items =
      ([Stdout [Lit (nl @ ''=== aioboto3: listing up to ''), Num max_items,
                Lit '' objects (Downloading only files) from bucket '',
                ReprOf (PyStr []), Lit '' ===''],
        Stdout [Lit ''  S3_TEST_BUCKET not set; skipping.'']], Inr [])"
    using assms by (simp add: list_aioboto3_contents_def then_do_def say_def)
  have b: "list_aioaws_contents w max_items =
      ([Stdout [Lit (nl @ ''=== aioaws: listing up to ''), Num max_items,
                Lit '' objects (Downloading only files) from bucket '',
                ReprOf (PyStr []), Lit '' ===''],
        Stdout [Lit ''  S3_TEST_BUCKET not set; skipping.'']], Inr [])"
    using assms by (simp add: list_aioaws_contents_def then_do_def say_def)
  have c: "list_obstore_contents w max_items =
      ([Stdout [Lit (nl @ ''=== obstore: listing up to ''), Num max_items,
                Lit '' objects (Downloading only files) from bucket '',
                ReprOf (PyStr []), Lit '' ===''],
        Stdout [Lit ''  S3_TEST_BUCKET not set; skipping.'']], Inr [])"
    using assms by (simp add: list_obstore_contents_def then_do_def say_def)
  have d: "check_aioaws_s3 w =
      ([Stdout [Lit (nl @ ''=== aioaws: S3 list sanity check on bucket ''),
                ReprOf (PyStr []), Lit '' ===''],
        Stdout [Lit ''  S3_TEST_BUCKET not set; skipping aioaws S3 check.'']], Inr ())"
    using assms by (simp add: check_aioaws_s3_def then_do_def say_def)
  have e: "check_obstore_s3 w =
      ([Stdout [Lit (nl @ ''=== obstore: S3Store list_async sanity check on bucket ''),
                ReprOf (PyStr []), Lit '' ===''],
        Stdout [Lit ''  S3_TEST_BUCKET not set; skipping obstore S3 check.'']], Inr ())"
    using assms by (simp add: check_obstore_s3_def then_do_def say_def)
  from a b c d e show ?thesis by (intro conjI)
qed

theorem empty_bucket_skips_witness:
  "S3_TEST_BUCKET (env0\<lparr>S3_TEST_BUCKET := []\<rparr>) = [] \<and>
   snd (list_aioboto3_contents (env0\<lparr>S3_TEST_BUCKET := []\<rparr>) 100) = Inr [] \<and>
   snd (list_aioaws_contents (env0\<lparr>S3_TEST_BUCKET := []\<rparr>) 100) = Inr [] \<and>
   snd (list_obstore_contents (env0\<lparr>S3_TEST_BUCKET := []\<rparr>) 100) = Inr [] \<and>
   filter is_net (fst (list_aioboto3_contents (env0\<lparr>S3_TEST_BUCKET := []\<rparr>) 100)) = [] \<and>
   filter is_net (fst (check_aioaws_s3 (env0\<lparr>S3_TEST_BUCKET := []\<rparr>))) = [] \<and>
   filter is_net (fst (check_obstore_s3 (env0\<lparr>S3_TEST_BUCKET := []\<rparr>))) = []"
  using empty_bucket_skips [of "env0\<lparr>S3_TEST_BUCKET := []\<rparr>" 100]
  by (simp add: is_net_def)

section \<open>Properties of the downloads\<close>

text \<open>
  The keys handed to the download functions are plain strings, and a plain string is
  never downloadable: the loop passes over every one of them without an event.
\<close>

lemma download_loop_str_keys:
  "\<forall>k \<in> set keys. \<exists>s. k = PyStr s \<Longrightarrow> download_loop fetch via w base keys = ([], Inr ())"
  by (induction keys) (auto simp: downloadable_str)

text \<open>
  C1. The check before the fetch, evaluated at the key \<^verbatim>\<open>report.txt\<close>: the key does not end
  in \<^verbatim>\<open>/\<close>, the check rejects it all the same, and the aioboto3 download of the batch holding
  it creates its base directory, prints its heading and ends without a request for the
  object.
\<close>

theorem plain_key_is_skipped:
  "\<not> str_endswith_slash ''report.txt'' \<and>
   is_downloadable_entry (PyStr ''report.txt'') = Inr False \<and>
   download_aioboto3_files (w\<lparr>mkdir := (\<lambda>_. None)\<rparr>) [PyStr ''report.txt''] (Resolved ''/out'')
     = ([Mkdir (Div (Resolved ''/out'') ''aioboto3''),
         Stdout [Lit (nl @ ''=== aioboto3: downloading ''), Num 1, Lit '' objects into '',
                 PathStr (Div (Resolved ''/out'') ''aioboto3''), Lit '' ==='']],
        Inr ())"
  by (simp add: download_aioboto3_files_def download_files_def do_mkdir_def then_do_def say_def
      downloadable_str Let_def str_endswith_slash_def)


text \<open>
  Whether the loop ends normally or with an exception does not depend on what the body of
  \<^verbatim>\<open>try\<close> does: the only exceptions that leave it come from the statements before \<^verbatim>\<open>try\<close>.
\<close>

lemma download_loop_result_independent:
  "snd (download_loop fetch via w base keys) = snd (download_loop fetch' via w base keys)"
  by (induction keys) (auto split: sum.splits option.splits prod.splits)






section \<open>Properties of the whole run\<close>

text \<open>The two listing probes catch what their request raises: they always return.\<close>

lemma listing_probes_return:
  "snd (check_aioaws_s3 w) = Inr ()"
  "snd (check_obstore_s3 w) = Inr ()"
  by (auto simp: check_aioaws_s3_def check_obstore_s3_def then_do_def say_def
      split: prod.splits option.splits)

text \<open>So do the aioaws and obstore listings, with the keys gathered so far.\<close>

lemma caught_listings_return:
  "\<exists>keys. snd (list_aioaws_contents w max_items) = Inr keys"
  "\<exists>keys. snd (list_obstore_contents w max_items) = Inr keys"
  by (auto simp: list_aioaws_contents_def list_obstore_contents_def then_do_def say_def
      split: prod.splits option.splits)

text \<open>
  C7. The identity check, evaluated in a world with both credentials, a valid command line
  and a file system without failures, where STS rejects the call: the exception leaves
  \<^verbatim>\<open>check_aioboto3_sts\<close> and \<^verbatim>\<open>main\<close>, after the output directory, the heading and the request;
  no listing probe, listing or download follows.
\<close>

theorem sts_failure_ends_the_run:
  "main (w\<lparr>AWS_ACCESS_KEY_ID := Some ''AK'', AWS_SECRET_ACCESS_KEY := Some ''SK'',
           parse_args := Inr (100, Resolved ''/out''), mkdir := (\<lambda>_. None),
           get_caller_identity := Inl (BackendError ''InvalidClientTokenId'')\<rparr>)
   = ([Mkdir (Resolved ''/out''),
       Stdout [Lit (nl @ ''=== aioboto3: STS GetCallerIdentity ==='')],
       Net StsGetCallerIdentity],
      Inl (Exc (BackendError ''InvalidClientTokenId'')))"
  by (simp add: main_def require_creds_def missing_creds_def not_value_def then_do_def
      do_mkdir_def check_aioboto3_sts_def say_def lift_def)

text \<open>
  C8. When the access key or the secret key is unset or empty, \<^verbatim>\<open>main\<close> writes one line to
  stderr that names the missing variables and leaves through \<^verbatim>\<open>sys.exit(1)\<close>: the exit status
  is not zero, and the run holds no call to a backend and no other event.
\<close>

theorem missing_creds_abort:
  assumes "not_value (AWS_ACCESS_KEY_ID w) \<or> not_value (AWS_SECRET_ACCESS_KEY w)"
  shows "main w =
           ([Stderr [Lit ''Missing required env vars: '', Lit (join_comma (missing_creds w))]],
            Inl (SystemExit 1))
         \<and> missing_creds w \<noteq> []
         \<and> exit_status (main w) \<noteq> 0
         \<and> filter is_net (fst (main w)) = []"
proof -
  have m: "missing_creds w \<noteq> []"
    using assms by (auto simp: missing_creds_def)
  then have r: "main w =
           ([Stderr [Lit ''Missing required env vars: '', Lit (join_comma (missing_creds w))]],
            Inl (SystemExit 1))"
    by (simp add: main_def require_creds_def then_do_def Let_def)
  from m r show ?thesis by (simp add: exit_status_def is_net_def)
qed

theorem missing_creds_abort_witness:
  "(not_value (AWS_ACCESS_KEY_ID (env0\<lparr>AWS_SECRET_ACCESS_KEY := None\<rparr>))
      \<or> not_value (AWS_SECRET_ACCESS_KEY (env0\<lparr>AWS_SECRET_ACCESS_KEY := None\<rparr>)))
   \<and> main (env0\<lparr>AWS_SECRET_ACCESS_KEY := None\<rparr>) =
       ([Stderr [Lit ''Missing required env vars: '', Lit ''AWS_SECRET_ACCESS_KEY'']],
        Inl (SystemExit 1))
   \<and> exit_status (main (env0\<lparr>AWS_SECRET_ACCESS_KEY := None\<rparr>)) = 1"
  using missing_creds_abort [of "env0\<lparr>AWS_SECRET_ACCESS_KEY := None\<rparr>"]
  by (simp add: not_value_def missing_creds_def env0_def exit_status_def)

end
